theory Spec2Isabelle
  imports Complex_Main "HOL-Library.AList"
begin

section \<open>Runtime objects and property values\<close>

text \<open>
  The file \<^verbatim>\<open>pkg/resource/resource_object.go\<close> works on the interpreter's runtime
  objects (package \<^verbatim>\<open>rt\<close>), on the compiler's type descriptions (packages
  \<^verbatim>\<open>symbols\<close>, \<^verbatim>\<open>types\<close>, \<^verbatim>\<open>predef\<close>) and on the resource
  package's own \<^verbatim>\<open>PropertyValue\<close>. None of these declarations is part of the
  sources at hand, so they are modelled here, as far as the functions of
  \<^verbatim>\<open>resource_object.go\<close> use them.
\<close>

text \<open>A failed \<^verbatim>\<open>contract.Assert\<close>, \<^verbatim>\<open>contract.Require\<close> or a Go run-time
  panic: the current operation stops.\<close>

datatype error = InvariantViolation

text \<open>Modelled from the spec: the type descriptions of \<^verbatim>\<open>symbols\<close> and
  \<^verbatim>\<open>types\<close>. The six primitives are the singletons \<^verbatim>\<open>types.Null\<close> ...
  \<^verbatim>\<open>types.Dynamic\<close>; a class carries its token and whether the predefined
  resource class is among its bases; \<open>OtherType\<close> stands for every remaining kind
  of type (modules, prototypes, ...).\<close>

datatype Type =
    types_Null | types_Bool | types_Number | types_String | types_Object | types_Dynamic
  | ArrayType Type
  | MapType Type Type
  | Class string bool
  | ComputedType Type
  | FunctionType
  | OtherType string

text \<open>Modelled from the spec: \<^verbatim>\<open>predef.IsResourceType\<close>, true of the classes that
  derive from the predefined resource class.\<close>

fun IsResourceType :: "Type \<Rightarrow> bool" where
  "IsResourceType (Class tok res) = res"
| "IsResourceType t = False"

text \<open>Modelled from the spec: \<^verbatim>\<open>Type.TypeToken()\<close>, the name of a type.\<close>

fun TypeToken :: "Type \<Rightarrow> string" where
  "TypeToken types_Null = ''null''"
| "TypeToken types_Bool = ''bool''"
| "TypeToken types_Number = ''number''"
| "TypeToken types_String = ''string''"
| "TypeToken types_Object = ''object''"
| "TypeToken types_Dynamic = ''dynamic''"
| "TypeToken (ArrayType e) = ''[]'' @ TypeToken e"
| "TypeToken (MapType k v) = ''map['' @ TypeToken k @ '']'' @ TypeToken v"
| "TypeToken (Class tok res) = tok"
| "TypeToken (ComputedType e) = ''computed<'' @ TypeToken e @ ''>''"
| "TypeToken FunctionType = ''()''"
| "TypeToken (OtherType tok) = tok"

text \<open>The identity of a live runtime object: the value of a \<^verbatim>\<open>*rt.Object\<close>
  pointer, as far as the code compares pointers.\<close>

type_synonym addr = nat

text \<open>Modelled from the spec: \<^verbatim>\<open>rt.Object\<close>. A runtime object has a type, a
  value and properties. The properties are kept as the association list that
  \<^verbatim>\<open>PropertyMap.Stable()\<close> enumerates (unique keys, in the stable order). The
  value of a computed object (\<^verbatim>\<open>rt.ComputedValue\<close>) says whether it comes from
  an expression and names its sources, the objects it depends on. Objects form
  a tree here: a reference to another resource is the referenced object itself,
  of which capture reads the type and the ID property only.\<close>

datatype Object_rt =
  NewObject_rt (Type_of: Type) (Value_of: Value_rt) (Properties: "(string \<times> Object_rt) list")
and Value_rt =
    NoValue
  | BoolV bool
  | NumberV real
  | StringV string
  | ArrayV "Object_rt list"
  | ComputedV bool "addr list"

text \<open>Modelled from the spec: the resource package's \<^verbatim>\<open>PropertyValue\<close>, a closed
  variant; the constructors bear the names of the Go constructor functions.
  A \<^verbatim>\<open>PropertyMap\<close> is a Go map from keys to values, here an association
  list.\<close>

datatype PropertyValue =
    NewNullProperty
  | NewBoolProperty bool
  | NewNumberProperty real
  | NewStringProperty string
  | NewArrayProperty "PropertyValue list"
  | NewObjectProperty "(string \<times> PropertyValue) list"
  | MakeComputed PropertyValue
  | MakeOutput PropertyValue

type_synonym PropertyMap = "(string \<times> PropertyValue) list"

text \<open>Modelled from the spec: \<^verbatim>\<open>PropertyValue{}\<close>, the zero value of the Go struct,
  whose only field is nil, as in the null property.\<close>

definition PropertyValue_zero :: PropertyValue where
  "PropertyValue_zero = NewNullProperty"

text \<open>Modelled from the spec: the predicates, constants and constructors of
  \<^verbatim>\<open>rt\<close>.\<close>

definition IsNull :: "Object_rt \<Rightarrow> bool" where
  "IsNull ob = (Type_of ob = types_Null)"

definition IsString :: "Object_rt \<Rightarrow> bool" where
  "IsString ob = (Type_of ob = types_String)"

fun IsComputed :: "Object_rt \<Rightarrow> bool" where
  "IsComputed (NewObject_rt (ComputedType e) v ps) = True"
| "IsComputed ob = False"

definition rt_Null :: Object_rt where
  "rt_Null = NewObject_rt types_Null NoValue []"

definition rt_Bools :: "bool \<Rightarrow> Object_rt" where
  "rt_Bools b = NewObject_rt types_Bool (BoolV b) []"

definition NewNumberObject :: "real \<Rightarrow> Object_rt" where
  "NewNumberObject n = NewObject_rt types_Number (NumberV n) []"

definition NewStringObject :: "string \<Rightarrow> Object_rt" where
  "NewStringObject s = NewObject_rt types_String (StringV s) []"

definition NewArrayObject :: "Type \<Rightarrow> Object_rt list \<Rightarrow> Object_rt" where
  "NewArrayObject elem arr = NewObject_rt (ArrayType elem) (ArrayV arr) []"

text \<open>Modelled from the spec: the value accessors of \<^verbatim>\<open>rt.Object\<close>; each asserts
  the object's type and unpacks the value.\<close>

definition BoolValue :: "Object_rt \<Rightarrow> error + bool" where
  "BoolValue ob =
     (case Value_of ob of
        BoolV b \<Rightarrow> if Type_of ob = types_Bool then Inr b else Inl InvariantViolation
      | _ \<Rightarrow> Inl InvariantViolation)"

definition NumberValue :: "Object_rt \<Rightarrow> error + real" where
  "NumberValue ob =
     (case Value_of ob of
        NumberV n \<Rightarrow> if Type_of ob = types_Number then Inr n else Inl InvariantViolation
      | _ \<Rightarrow> Inl InvariantViolation)"

definition StringValue :: "Object_rt \<Rightarrow> error + string" where
  "StringValue ob =
     (case Value_of ob of
        StringV s \<Rightarrow> if Type_of ob = types_String then Inr s else Inl InvariantViolation
      | _ \<Rightarrow> Inl InvariantViolation)"

text \<open>Modelled from the spec: \<^verbatim>\<open>Object.GetPropertyAddr(key, init, forceInit)\<close>.
  The Go function returns a pointer to the property's slot, nil when the
  property is missing and \<open>init\<close> is false; with \<open>init\<close> a missing property is
  created, holding null. Here it returns the object (with the slot created)
  and the object the slot holds; \<open>Pointer_Set\<close> stores through the slot of a
  key.\<close>

definition GetPropertyAddr ::
  "Object_rt \<Rightarrow> string \<Rightarrow> bool \<Rightarrow> bool \<Rightarrow> Object_rt \<times> Object_rt option" where
  "GetPropertyAddr ob key init forceInit =
     (case map_of (Properties ob) key of
        Some p \<Rightarrow> (ob, Some p)
      | None \<Rightarrow>
          if init
          then (NewObject_rt (Type_of ob) (Value_of ob) (Properties ob @ [(key, rt_Null)]),
                Some rt_Null)
          else (ob, None))"

definition Pointer_Set :: "Object_rt \<Rightarrow> string \<Rightarrow> Object_rt \<Rightarrow> Object_rt" where
  "Pointer_Set ob key val =
     NewObject_rt (Type_of ob) (Value_of ob) (AList.update key val (Properties ob))"

text \<open>Modelled from the spec: the key of the ID property, \<^verbatim>\<open>IDProperty\<close>.\<close>

definition IDProperty :: string where
  "IDProperty = ''id''"

section \<open>The resource object\<close>

text \<open>\<^verbatim>\<open>type Object struct { urn URN; obj *rt.Object }\<close>. The pointer \<open>obj\<close> is
  the pair of the live object's identity and the object it points to.\<close>

record Object =
  urn :: string
  obj_addr :: addr
  obj :: Object_rt

definition IsResourceObject :: "Object_rt \<Rightarrow> bool" where
  "IsResourceObject ob = IsResourceType (Type_of ob)"

definition Type :: "Object \<Rightarrow> string" where
  "Type r = TypeToken (Type_of (obj r))"

text \<open>Modelled from the spec: \<^verbatim>\<open>HasURN\<close>, the URN is set when it is not empty.\<close>

definition HasURN :: "Object \<Rightarrow> bool" where
  "HasURN r = (urn r \<noteq> [])"

definition getIDObject :: "Object_rt \<Rightarrow> error + Object_rt option" where
  "getIDObject ob =
     (if \<not> IsResourceObject ob then Inl InvariantViolation
      else case snd (GetPropertyAddr ob IDProperty False False) of
             Some idv \<Rightarrow>
               if IsString idv \<or> IsComputed idv then Inr (Some idv)
               else Inl InvariantViolation
           | None \<Rightarrow> Inr None)"

definition ID :: "Object \<Rightarrow> error + string" where
  "ID r =
     (case getIDObject (obj r) of
        Inl e \<Rightarrow> Inl e
      | Inr None \<Rightarrow> Inl InvariantViolation
      | Inr (Some idobj) \<Rightarrow>
          if IsString idobj then StringValue idobj else Inl InvariantViolation)"

definition HasID :: "Object \<Rightarrow> error + bool" where
  "HasID r =
     (case getIDObject (obj r) of
        Inl e \<Rightarrow> Inl e
      | Inr None \<Rightarrow> Inr False
      | Inr (Some idobj) \<Rightarrow> Inr (\<not> IsNull idobj))"

definition SetID :: "Object \<Rightarrow> string \<Rightarrow> error + Object" where
  "SetID r ident =
     (case GetPropertyAddr (obj r) IDProperty True True of
        (ob, None) \<Rightarrow> Inl InvariantViolation
      | (ob, Some p) \<Rightarrow>
          if IsNull p \<or> IsComputed p
          then Inr (r\<lparr>obj := Pointer_Set ob IDProperty (NewStringObject ident)\<rparr>)
          else Inl InvariantViolation)"

definition SetURN :: "Object \<Rightarrow> string \<Rightarrow> error + Object" where
  "SetURN r m = (if HasURN r then Inl InvariantViolation else Inr (r\<lparr>urn := m\<rparr>))"

section \<open>Capture: from a live object to a property map\<close>

text \<open>
  \<open>copyObjectProperty\<close> dispatches on the object's type in the order of the Go
  code: resource types first, then the primitives, then arrays, maps and
  classes, then computed types; what is left must be a function type. The
  context \<open>resobj\<close> is a pointer that the code only compares with a computed
  value's source and hands on, \<open>None\<close> being nil. The two loops carry the
  result they build; \<open>result[k] = v\<close> is \<open>AList.update\<close>.
\<close>

fun copyObject :: "addr option \<Rightarrow> Object_rt \<Rightarrow> error + PropertyMap"
and copyObjectProperty :: "addr option \<Rightarrow> Object_rt \<Rightarrow> error + PropertyValue"
and copyObjectProperties ::
  "addr option \<Rightarrow> (string \<times> Object_rt) list \<Rightarrow> PropertyMap \<Rightarrow> error + PropertyMap"
and copyArrayElements :: "Object_rt list \<Rightarrow> PropertyValue list \<Rightarrow> error + PropertyValue list"
where
  "copyObject resobj (NewObject_rt t v props) = copyObjectProperties resobj props []"
| "copyObjectProperty resobj (NewObject_rt t v props) =
     (if IsResourceType t then
        (case getIDObject (NewObject_rt t v props) of
           Inl e \<Rightarrow> Inl e
         | Inr None \<Rightarrow> Inr (MakeComputed (NewStringProperty []))
         | Inr (Some idobj) \<Rightarrow>
             if IsString idobj
             then (case StringValue idobj of
                     Inl e \<Rightarrow> Inl e
                   | Inr s \<Rightarrow> Inr (NewStringProperty s))
             else Inr (MakeComputed (NewStringProperty [])))
      else
        (case t of
           types_Null \<Rightarrow> Inr NewNullProperty
         | types_Bool \<Rightarrow>
             (case BoolValue (NewObject_rt t v props) of
                Inl e \<Rightarrow> Inl e | Inr b \<Rightarrow> Inr (NewBoolProperty b))
         | types_Number \<Rightarrow>
             (case NumberValue (NewObject_rt t v props) of
                Inl e \<Rightarrow> Inl e | Inr n \<Rightarrow> Inr (NewNumberProperty n))
         | types_String \<Rightarrow>
             (case StringValue (NewObject_rt t v props) of
                Inl e \<Rightarrow> Inl e | Inr s \<Rightarrow> Inr (NewStringProperty s))
         | types_Object \<Rightarrow>
             (case copyObject None (NewObject_rt t v props) of
                Inl e \<Rightarrow> Inl e | Inr result \<Rightarrow> Inr (NewObjectProperty result))
         | types_Dynamic \<Rightarrow>
             (case copyObject None (NewObject_rt t v props) of
                Inl e \<Rightarrow> Inl e | Inr result \<Rightarrow> Inr (NewObjectProperty result))
         | ArrayType elem \<Rightarrow>
             (case v of
                ArrayV arr \<Rightarrow>
                  (case copyArrayElements arr [] of
                     Inl e \<Rightarrow> Inl e | Inr result \<Rightarrow> Inr (NewArrayProperty result))
              | _ \<Rightarrow> Inl InvariantViolation)
         | MapType kt vt \<Rightarrow>
             (case copyObjectProperties None props [] of
                Inl e \<Rightarrow> Inl e | Inr result \<Rightarrow> Inr (NewObjectProperty result))
         | Class tok res \<Rightarrow>
             (case copyObject None (NewObject_rt t v props) of
                Inl e \<Rightarrow> Inl e | Inr result \<Rightarrow> Inr (NewObjectProperty result))
         | ComputedType elem \<Rightarrow>
             (case v of
                ComputedV expr sources \<Rightarrow>
                  (let makeProperty =
                         (if \<not> expr \<and> length sources = 1 \<and> Some (sources ! 0) = resobj
                          then MakeOutput else MakeComputed)
                   in case elem of
                        types_Null \<Rightarrow> Inr (makeProperty NewNullProperty)
                      | types_Bool \<Rightarrow> Inr (makeProperty (NewBoolProperty False))
                      | types_Number \<Rightarrow> Inr (makeProperty (NewNumberProperty 0))
                      | types_String \<Rightarrow> Inr (makeProperty (NewStringProperty []))
                      | types_Object \<Rightarrow> Inr (makeProperty (NewObjectProperty []))
                      | types_Dynamic \<Rightarrow> Inr (makeProperty (NewObjectProperty []))
                      | ArrayType e \<Rightarrow> Inr (makeProperty (NewArrayProperty []))
                      | Class tok res \<Rightarrow> Inr (makeProperty (NewObjectProperty []))
                      | _ \<Rightarrow> Inl InvariantViolation)
              | _ \<Rightarrow> Inl InvariantViolation)
         | FunctionType \<Rightarrow> Inr PropertyValue_zero
         | OtherType tok \<Rightarrow> Inl InvariantViolation))"
| "copyObjectProperties resobj [] result = Inr result"
| "copyObjectProperties resobj ((k, ob) # props) result =
     (case copyObjectProperty resobj ob of
        Inl e \<Rightarrow> Inl e
      | Inr pv \<Rightarrow> copyObjectProperties resobj props (AList.update k pv result))"
| "copyArrayElements [] result = Inr result"
| "copyArrayElements (ob # arr) result =
     (case copyObjectProperty None ob of
        Inl e \<Rightarrow> Inl e
      | Inr pv \<Rightarrow> copyArrayElements arr (result @ [pv]))"

definition CopyProperties :: "Object \<Rightarrow> error + PropertyMap" where
  "CopyProperties r = copyObject (Some (obj_addr r)) (obj r)"

section \<open>Hydration: from a property map to a live object\<close>

text \<open>
  \<open>setRuntimeProperties\<close> walks the entries of the map (Go leaves the order
  open; the list gives one), takes the slot of each key, creating it when it
  is missing, and stores the translated value only where the slot holds null.
  \<open>createRuntimeProperty\<close> accepts null, bool, number, string, array and
  object values; for a computed or an output value its assertion fails.
\<close>

fun setRuntimeProperties :: "Object_rt \<Rightarrow> PropertyMap \<Rightarrow> error + Object_rt"
and createRuntimeProperty :: "PropertyValue \<Rightarrow> error + Object_rt"
and createArrayElements :: "PropertyValue list \<Rightarrow> Object_rt list \<Rightarrow> error + Object_rt list"
where
  "setRuntimeProperties ob [] = Inr ob"
| "setRuntimeProperties ob ((k, v) # props) =
     (case GetPropertyAddr ob k True True of
        (ob', None) \<Rightarrow> Inl InvariantViolation
      | (ob', Some p) \<Rightarrow>
          if IsNull p
          then (case createRuntimeProperty v of
                  Inl e \<Rightarrow> Inl e
                | Inr val \<Rightarrow> setRuntimeProperties (Pointer_Set ob' k val) props)
          else setRuntimeProperties ob' props)"
| "createRuntimeProperty NewNullProperty = Inr rt_Null"
| "createRuntimeProperty (NewBoolProperty b) = Inr (rt_Bools b)"
| "createRuntimeProperty (NewNumberProperty n) = Inr (NewNumberObject n)"
| "createRuntimeProperty (NewStringProperty s) = Inr (NewStringObject s)"
| "createRuntimeProperty (NewArrayProperty src) =
     (case createArrayElements src [] of
        Inl e \<Rightarrow> Inl e
      | Inr arr \<Rightarrow> Inr (NewArrayObject types_Dynamic arr))"
| "createRuntimeProperty (NewObjectProperty m) =
     setRuntimeProperties (NewObject_rt types_Dynamic NoValue []) m"
| "createRuntimeProperty (MakeComputed v) = Inl InvariantViolation"
| "createRuntimeProperty (MakeOutput v) = Inl InvariantViolation"
| "createArrayElements [] arr = Inr arr"
| "createArrayElements (elem # src) arr =
     (case createRuntimeProperty elem of
        Inl e \<Rightarrow> Inl e
      | Inr ve \<Rightarrow> createArrayElements src (arr @ [ve]))"

text \<open>\<open>SetProperties\<close> takes the map as Go passes it: \<open>None\<close> is the nil map,
  which the assertion refuses.\<close>

definition SetProperties :: "Object \<Rightarrow> PropertyMap option \<Rightarrow> error + Object" where
  "SetProperties r props =
     (case props of
        None \<Rightarrow> Inl InvariantViolation
      | Some m \<Rightarrow>
          (case setRuntimeProperties (obj r) m of
             Inl e \<Rightarrow> Inl e
           | Inr ob \<Rightarrow> Inr (r\<lparr>obj := ob\<rparr>)))"

section \<open>The state snapshot\<close>

text \<open>Modelled from the spec: \<^verbatim>\<open>State\<close> and \<^verbatim>\<open>NewState\<close>, the record of a
  resource's type, URN, ID, inputs and outputs.\<close>

record State =
  state_type :: string
  state_urn :: string
  state_id :: string
  state_inputs :: PropertyMap
  state_outputs :: "PropertyMap option"

definition NewState ::
  "string \<Rightarrow> string \<Rightarrow> string \<Rightarrow> PropertyMap \<Rightarrow> PropertyMap option \<Rightarrow> State" where
  "NewState t u i inputs outputs =
     \<lparr>state_type = t, state_urn = u, state_id = i,
      state_inputs = inputs, state_outputs = outputs\<rparr>"

text \<open>\<open>Update\<close> returns the state snapshot and the resource object as the call
  leaves it.\<close>

definition Update :: "Object \<Rightarrow> string \<Rightarrow> PropertyMap option \<Rightarrow> error + (State \<times> Object)" where
  "Update r ident outputs =
     (if \<not> HasURN r then Inl InvariantViolation
      else case CopyProperties r of
             Inl e \<Rightarrow> Inl e
           | Inr inputs \<Rightarrow>
               (case SetID r ident of
                  Inl e \<Rightarrow> Inl e
                | Inr r1 \<Rightarrow>
                    (case SetProperties r1 outputs of
                       Inl e \<Rightarrow> Inl e
                     | Inr r2 \<Rightarrow>
                         Inr (NewState (Type r2) (urn r2) ident inputs outputs, r2))))"

section \<open>Notions of the specification\<close>

text \<open>The placeholder that the specification gives a computed value: the zero
  value of the declared element kind (null, false, 0, the empty string, the
  empty object, the empty array). The kinds it does not list have none.\<close>

fun spec_placeholder :: "Type \<Rightarrow> PropertyValue option" where
  "spec_placeholder types_Null = Some NewNullProperty"
| "spec_placeholder types_Bool = Some (NewBoolProperty False)"
| "spec_placeholder types_Number = Some (NewNumberProperty 0)"
| "spec_placeholder types_String = Some (NewStringProperty [])"
| "spec_placeholder types_Object = Some (NewObjectProperty [])"
| "spec_placeholder types_Dynamic = Some (NewObjectProperty [])"
| "spec_placeholder (ArrayType e) = Some (NewArrayProperty [])"
| "spec_placeholder (Class tok res) = Some (NewObjectProperty [])"
| "spec_placeholder t = None"

text \<open>A value is hydratable when no computed and no output value occurs in it.\<close>

fun hydratable :: "PropertyValue \<Rightarrow> bool" where
  "hydratable (NewArrayProperty xs) = (\<forall>x \<in> set xs. hydratable x)"
| "hydratable (NewObjectProperty m) = (\<forall>kv \<in> set m. hydratable (snd kv))"
| "hydratable (MakeComputed v) = False"
| "hydratable (MakeOutput v) = False"
| "hydratable v = True"

text \<open>No output value occurs in a value, at its root or below.\<close>

fun noOutput :: "PropertyValue \<Rightarrow> bool" where
  "noOutput (NewArrayProperty xs) = (\<forall>x \<in> set xs. noOutput x)"
| "noOutput (NewObjectProperty m) = (\<forall>kv \<in> set m. noOutput (snd kv))"
| "noOutput (MakeComputed v) = noOutput v"
| "noOutput (MakeOutput v) = False"
| "noOutput v = True"

text \<open>No output value occurs below the root of a value.\<close>

fun noOutputBelow :: "PropertyValue \<Rightarrow> bool" where
  "noOutputBelow (MakeOutput v) = noOutput v"
| "noOutputBelow v = noOutput v"

text \<open>The ID property of a resource object is not concretely assigned: it is
  missing, null or computed.\<close>

definition IDUnassigned :: "Object \<Rightarrow> bool" where
  "IDUnassigned r =
     (case map_of (Properties (obj r)) IDProperty of
        None \<Rightarrow> True
      | Some p \<Rightarrow> IsNull p \<or> IsComputed p)"

text \<open>The property of a key is unset on an object: it is missing or holds
  null.\<close>

definition IsUnset :: "Object_rt \<Rightarrow> string \<Rightarrow> bool" where
  "IsUnset ob k = (case map_of (Properties ob) k of None \<Rightarrow> True | Some p \<Rightarrow> IsNull p)"

section \<open>Stack import\<close>

text \<open>
  \<^verbatim>\<open>cmd/stack_import.go\<close>: the body of the command from the point where the
  snapshot has been deserialized (the loop over the snapshot's resources, the
  clearing of pending operations, serialization and the import itself). The
  snapshot, the diagnostics sink, the backend and the libraries for errors are
  not among the sources at hand.
\<close>

text \<open>Modelled from the spec: errors as the command builds them
  (\<^verbatim>\<open>errors.New\<close>, \<^verbatim>\<open>errors.Wrap\<close>, the list of \<^verbatim>\<open>go-multierror\<close>) and
  errors that come back from a collaborator.\<close>

datatype cmd_error =
    errors_New string
  | errors_Wrap cmd_error string
  | multierror_Error "cmd_error list"
  | External string

text \<open>Modelled from the spec: \<^verbatim>\<open>multierror.Append\<close> of one error to a possibly nil
  error: the result is always a list of errors, a list argument being
  flattened.\<close>

fun multierror_flat :: "cmd_error \<Rightarrow> cmd_error list" where
  "multierror_flat (multierror_Error es) = es"
| "multierror_flat e = [e]"

definition multierror_Append :: "cmd_error option \<Rightarrow> cmd_error \<Rightarrow> cmd_error" where
  "multierror_Append result e =
     (case result of
        None \<Rightarrow> multierror_Error (multierror_flat e)
      | Some r \<Rightarrow> multierror_Error (multierror_flat r @ multierror_flat e))"

text \<open>Modelled from the spec: the snapshot, as far as the command reads it. A
  resource has a URN, a pending operation a type and a resource; the list of
  pending operations may be nil (\<open>None\<close>).\<close>

record ResourceState =
  URN :: string

record Operation =
  Operation_Type :: string
  Operation_Resource :: ResourceState

record Snapshot =
  Resources :: "ResourceState list"
  PendingOperations :: "Operation list option"

text \<open>A diagnostic \<^verbatim>\<open>diag.Message(urn, msg)\<close> handed to
  \<^verbatim>\<open>cmdutil.Diag().Warningf\<close>.\<close>

record Warning =
  Warning_urn :: string
  Warning_msg :: string

record 'b UntypedDeployment =
  Version :: nat
  Deployment :: 'b

text \<open>The collaborators of the command: the stack name embedded in a URN
  (\<^verbatim>\<open>URN.Stack()\<close>), the name of the selected stack, serialization of the
  snapshot followed by \<^verbatim>\<open>json.Marshal\<close>, the current schema version and the
  backend's \<^verbatim>\<open>ImportDeployment\<close>, which returns an error or nil.\<close>

record 'b Collaborators =
  URN_Stack :: "string \<Rightarrow> string"
  StackName :: string
  MarshalDeployment :: "Snapshot \<Rightarrow> cmd_error + 'b"
  DeploymentSchemaVersionCurrent :: nat
  ImportDeployment :: "'b UntypedDeployment \<Rightarrow> cmd_error option"

definition quoted :: "string \<Rightarrow> string" where
  "quoted s = [CHR 0x27] @ s @ [CHR 0x27]"

definition mismatchMessage :: "'b Collaborators \<Rightarrow> ResourceState \<Rightarrow> string" where
  "mismatchMessage c res =
     ''resource '' @ quoted (URN res) @ '' is from a different stack ('' @
     URN_Stack c (URN res) @ '' != '' @ StackName c @ '')''"

definition closingMessage :: string where
  "closingMessage =
     ''importing this file could be dangerous; rerun with --force to proceed anyway''"

definition pendingMessage :: "Operation \<Rightarrow> string" where
  "pendingMessage op =
     ''removing pending operation '' @ quoted (Operation_Type op) @ '' on '' @
     quoted (URN (Operation_Resource op)) @ '' from snapshot''"

text \<open>The loop over \<^verbatim>\<open>snapshot.Resources\<close>: the state is the list of warnings
  issued so far and the error gathered so far (\<open>None\<close> is nil).\<close>

fun checkResources ::
  "'b Collaborators \<Rightarrow> bool \<Rightarrow> ResourceState list \<Rightarrow> Warning list \<times> cmd_error option
     \<Rightarrow> Warning list \<times> cmd_error option" where
  "checkResources c force [] (ws, result) = (ws, result)"
| "checkResources c force (res # rest) (ws, result) =
     (if URN_Stack c (URN res) \<noteq> StackName c
      then (if force
            then checkResources c force rest
                   (ws @ [\<lparr>Warning_urn = [], Warning_msg = mismatchMessage c res\<rparr>], result)
            else checkResources c force rest
                   (ws, Some (multierror_Append result (errors_New (mismatchMessage c res)))))
      else checkResources c force rest (ws, result))"

text \<open>The clearing of pending operations: one warning for each, then the list
  becomes nil.\<close>

definition clearPendingOperations :: "Snapshot \<Rightarrow> Warning list \<Rightarrow> Snapshot \<times> Warning list" where
  "clearPendingOperations snapshot ws =
     (case PendingOperations snapshot of
        None \<Rightarrow> (snapshot, ws)
      | Some ops \<Rightarrow>
          (snapshot\<lparr>PendingOperations := None\<rparr>,
           ws @ map (\<lambda>op. \<lparr>Warning_urn = URN (Operation_Resource op),
                            Warning_msg = pendingMessage op\<rparr>) ops))"

text \<open>What a run of the command leaves behind: the warnings issued, the
  snapshot that was handed to serialization (if the run got there), the
  deployment handed to the backend (if the run got there), the lines printed
  and the error returned (\<open>None\<close> is nil).\<close>

record 'b Outcome =
  warnings :: "Warning list"
  serialized :: "Snapshot option"
  imported :: "'b UntypedDeployment option"
  printed :: "string list"
  returned :: "cmd_error option"

definition stackImport :: "'b Collaborators \<Rightarrow> bool \<Rightarrow> Snapshot \<Rightarrow> 'b Outcome" where
  "stackImport c force snapshot =
     (case checkResources c force (Resources snapshot) ([], None) of
        (ws, Some result) \<Rightarrow>
          \<lparr>warnings = ws, serialized = None, imported = None, printed = [],
           returned = Some (multierror_Append (Some result) (errors_New closingMessage))\<rparr>
      | (ws, None) \<Rightarrow>
          (case clearPendingOperations snapshot ws of
             (snapshot', ws') \<Rightarrow>
               (case MarshalDeployment c snapshot' of
                  Inl err \<Rightarrow>
                    \<lparr>warnings = ws', serialized = Some snapshot', imported = None,
                     printed = [], returned = Some err\<rparr>
                | Inr bytes \<Rightarrow>
                    (let dep = \<lparr>Version = DeploymentSchemaVersionCurrent c,
                                Deployment = bytes\<rparr>
                     in case ImportDeployment c dep of
                          Some err \<Rightarrow>
                            \<lparr>warnings = ws', serialized = Some snapshot',
                             imported = Some dep, printed = [],
                             returned = Some (errors_Wrap err ''could not import deployment'')\<rparr>
                        | None \<Rightarrow>
                            \<lparr>warnings = ws', serialized = Some snapshot',
                             imported = Some dep, printed = [''Import successful.''],
                             returned = None\<rparr>))))"

text \<open>The resources of a snapshot whose URN names another stack than the
  selected one, the warning for such a resource, the warning for a pending
  operation, and the pending operations of a snapshot (none when the list is
  nil).\<close>

definition mismatches :: "'b Collaborators \<Rightarrow> Snapshot \<Rightarrow> ResourceState list" where
  "mismatches c snapshot =
     filter (\<lambda>res. URN_Stack c (URN res) \<noteq> StackName c) (Resources snapshot)"

definition mismatchWarning :: "'b Collaborators \<Rightarrow> ResourceState \<Rightarrow> Warning" where
  "mismatchWarning c res = \<lparr>Warning_urn = [], Warning_msg = mismatchMessage c res\<rparr>"

definition pendingWarning :: "Operation \<Rightarrow> Warning" where
  "pendingWarning op =
     \<lparr>Warning_urn = URN (Operation_Resource op), Warning_msg = pendingMessage op\<rparr>"

definition pendingOps :: "Snapshot \<Rightarrow> Operation list" where
  "pendingOps snapshot = (case PendingOperations snapshot of None \<Rightarrow> [] | Some ops \<Rightarrow> ops)"

text \<open>The errors gathered so far in a possibly nil error.\<close>

fun errs_of :: "cmd_error option \<Rightarrow> cmd_error list" where
  "errs_of None = []"
| "errs_of (Some e) = multierror_flat e"

section \<open>Example objects\<close>

text \<open>A resource that is being planned: it has a URN, and its ID property
  holds a computed value.\<close>

definition ex_computed_id :: Object_rt where
  "ex_computed_id = NewObject_rt (ComputedType types_String) (ComputedV False [7]) []"

definition ex_planned :: Object where
  "ex_planned =
     \<lparr>urn = ''urn:app::web'', obj_addr = 7,
      obj = NewObject_rt (Class ''aws:ec2/instance:Instance'' True) NoValue
              [(''id'', ex_computed_id)]\<rparr>"

text \<open>A resource that has been created: its ID property holds a string.\<close>

definition ex_created :: Object where
  "ex_created =
     \<lparr>urn = ''urn:app::db'', obj_addr = 8,
      obj = NewObject_rt (Class ''aws:rds/instance:Instance'' True) NoValue
              [(''id'', NewStringObject ''i-0''), (''size'', NewNumberObject 20)]\<rparr>"

text \<open>A resource without a URN and without an ID property.\<close>

definition ex_fresh :: Object where
  "ex_fresh =
     \<lparr>urn = [], obj_addr = 9,
      obj = NewObject_rt (Class ''aws:s3/bucket:Bucket'' True) NoValue
              [(''name'', NewStringObject ''logs'')]\<rparr>"

text \<open>The resource \<open>ex_fresh\<close> after the map with the single entry of key
  \<open>id\<close> and the null value has been hydrated onto it: its ID property is
  present and holds null.\<close>

definition ex_null_id :: Object where
  "ex_null_id =
     \<lparr>urn = [], obj_addr = 9,
      obj = NewObject_rt (Class ''aws:s3/bucket:Bucket'' True) NoValue
              [(''name'', NewStringObject ''logs''), (''id'', rt_Null)]\<rparr>"

text \<open>A resource with a function-typed property.\<close>

definition ex_with_method :: Object where
  "ex_with_method =
     \<lparr>urn = ''urn:app::queue'', obj_addr = 10,
      obj = NewObject_rt (Class ''aws:sqs/queue:Queue'' True) NoValue
              [(''name'', NewStringObject ''jobs''),
               (''start'', NewObject_rt FunctionType NoValue [])]\<rparr>"


text \<open>A backend for the stack \<open>stack-a\<close>, and snapshots with resources of the
  stacks \<open>stack-a\<close> and \<open>stack-b\<close> and one pending operation.\<close>

definition ex_backend :: "string Collaborators" where
  "ex_backend =
     \<lparr>URN_Stack = (\<lambda>u. takeWhile (\<lambda>ch. ch \<noteq> CHR '':'') (drop 11 u)),
      StackName = ''stack-a'',
      MarshalDeployment = (\<lambda>s. Inr (concat (map URN (Resources s)))),
      DeploymentSchemaVersionCurrent = 1,
      ImportDeployment = (\<lambda>d. None)\<rparr>"

definition ex_res_a :: ResourceState where
  "ex_res_a = \<lparr>URN = ''urn:pulumi:stack-a::p::t::a''\<rparr>"

definition ex_res_b :: ResourceState where
  "ex_res_b = \<lparr>URN = ''urn:pulumi:stack-b::p::t::b''\<rparr>"

definition ex_res_c :: ResourceState where
  "ex_res_c = \<lparr>URN = ''urn:pulumi:stack-a::p::t::c''\<rparr>"

definition ex_op :: Operation where
  "ex_op = \<lparr>Operation_Type = ''creating'', Operation_Resource = ex_res_c\<rparr>"

definition ex_snapshot :: Snapshot where
  "ex_snapshot = \<lparr>Resources = [ex_res_a, ex_res_b, ex_res_c], PendingOperations = Some [ex_op]\<rparr>"

definition ex_snapshot_own :: Snapshot where
  "ex_snapshot_own = \<lparr>Resources = [ex_res_a, ex_res_c], PendingOperations = Some [ex_op]\<rparr>"

section \<open>Basic facts about objects and their properties\<close>

lemma IsString_not_null_computed: "IsString p \<Longrightarrow> \<not> IsNull p \<and> \<not> IsComputed p"
  by (cases p rule: IsComputed.cases) (auto simp: IsString_def IsNull_def)

lemma IsNull_rt_Null: "IsNull rt_Null"
  by (simp add: IsNull_def rt_Null_def)

lemma Type_of_Pointer_Set: "Type_of (Pointer_Set ob k v) = Type_of ob"
  by (simp add: Pointer_Set_def)

lemma Properties_Pointer_Set:
  "map_of (Properties (Pointer_Set ob k v)) k' =
     (if k' = k then Some v else map_of (Properties ob) k')"
  by (simp add: Pointer_Set_def update_conv')

lemma map_of_append_new:
  "map_of ps k = None \<Longrightarrow>
     map_of (ps @ [(k, v)]) k' = (if k' = k then Some v else map_of ps k')"
  by (auto simp: map_add_def split: option.splits)

lemma GetPropertyAddr_init:
  "GetPropertyAddr ob k True f =
     (case map_of (Properties ob) k of
        Some p \<Rightarrow> (ob, Some p)
      | None \<Rightarrow>
          (NewObject_rt (Type_of ob) (Value_of ob) (Properties ob @ [(k, rt_Null)]),
           Some rt_Null))"
  by (simp add: GetPropertyAddr_def)

lemma GetPropertyAddr_init_props:
  "map_of (Properties (fst (GetPropertyAddr ob k True f))) k' =
     (if k' = k \<and> map_of (Properties ob) k = None then Some rt_Null
      else map_of (Properties ob) k')"
  by (auto simp: GetPropertyAddr_def map_add_def split: option.splits)

lemma GetPropertyAddr_init_Type: "Type_of (fst (GetPropertyAddr ob k True f)) = Type_of ob"
  by (simp add: GetPropertyAddr_def split: option.splits)

section \<open>Hydration keeps what is set\<close>

lemma setRuntimeProperties_Type:
  "setRuntimeProperties ob m = Inr ob' \<Longrightarrow> Type_of ob' = Type_of ob"
proof (induction m arbitrary: ob)
  case Nil
  then show ?case by simp
next
  case (Cons kv m)
  obtain k v where kv: "kv = (k, v)" by (cases kv)
  show ?case
  proof (cases "map_of (Properties ob) k")
    case None
    with Cons.prems kv obtain val where
      "setRuntimeProperties (Pointer_Set (NewObject_rt (Type_of ob) (Value_of ob) (Properties ob @ [(k, rt_Null)])) k val) m = Inr ob'"
      by (auto simp: GetPropertyAddr_init IsNull_rt_Null split: sum.splits)
    from Cons.IH [OF this] show ?thesis by (simp add: Type_of_Pointer_Set)
  next
    case (Some p)
    show ?thesis
    proof (cases "IsNull p")
      case True
      with Cons.prems kv Some obtain val where
        "setRuntimeProperties (Pointer_Set ob k val) m = Inr ob'"
        by (auto simp: GetPropertyAddr_init split: sum.splits)
      from Cons.IH [OF this] show ?thesis by (simp add: Type_of_Pointer_Set)
    next
      case False
      with Cons.prems kv Some have "setRuntimeProperties ob m = Inr ob'"
        by (auto simp: GetPropertyAddr_init)
      from Cons.IH [OF this] show ?thesis .
    qed
  qed
qed

lemma setRuntimeProperties_keeps:
  "setRuntimeProperties ob m = Inr ob' \<Longrightarrow> map_of (Properties ob) key = Some q \<Longrightarrow> \<not> IsNull q
     \<Longrightarrow> map_of (Properties ob') key = Some q"
proof (induction m arbitrary: ob)
  case Nil
  then show ?case by simp
next
  case (Cons kv m)
  obtain k v where kv: "kv = (k, v)" by (cases kv)
  show ?case
  proof (cases "map_of (Properties ob) k")
    case None
    then have ne: "key \<noteq> k" using Cons.prems(2) by auto
    let ?ob1 = "NewObject_rt (Type_of ob) (Value_of ob) (Properties ob @ [(k, rt_Null)])"
    from None Cons.prems(1) kv obtain val where
      run: "setRuntimeProperties (Pointer_Set ?ob1 k val) m = Inr ob'"
      by (auto simp: GetPropertyAddr_init IsNull_rt_Null split: sum.splits)
    have "map_of (Properties (Pointer_Set ?ob1 k val)) key = Some q"
      using ne None Cons.prems(2) by (simp add: Properties_Pointer_Set map_of_append_new)
    from Cons.IH [OF run this Cons.prems(3)] show ?thesis .
  next
    case (Some p)
    show ?thesis
    proof (cases "IsNull p")
      case True
      then have ne: "key \<noteq> k" using Cons.prems(2,3) Some by auto
      from True Cons.prems(1) kv Some obtain val where
        run: "setRuntimeProperties (Pointer_Set ob k val) m = Inr ob'"
        by (auto simp: GetPropertyAddr_init split: sum.splits)
      have "map_of (Properties (Pointer_Set ob k val)) key = Some q"
        using ne Cons.prems(2) by (simp add: Properties_Pointer_Set)
      from Cons.IH [OF run this Cons.prems(3)] show ?thesis .
    next
      case False
      with Cons.prems(1) kv Some have "setRuntimeProperties ob m = Inr ob'"
        by (auto simp: GetPropertyAddr_init)
      from Cons.IH [OF this Cons.prems(2,3)] show ?thesis .
    qed
  qed
qed

lemma setRuntimeProperties_dropped:
  "(\<forall>(k, v) \<in> set m. \<exists>q. map_of (Properties ob) k = Some q \<and> \<not> IsNull q)
     \<Longrightarrow> setRuntimeProperties ob m = Inr ob"
proof (induction m)
  case Nil
  then show ?case by simp
next
  case (Cons kv m)
  obtain k v where kv: "kv = (k, v)" by (cases kv)
  from Cons.prems kv obtain q where q: "map_of (Properties ob) k = Some q" "\<not> IsNull q"
    by auto
  from Cons.prems have "setRuntimeProperties ob m = Inr ob"
    by (intro Cons.IH) auto
  with q kv show ?case by (simp add: GetPropertyAddr_init)
qed


lemma setRuntimeProperties_other:
  "setRuntimeProperties ob m = Inr ob' \<Longrightarrow> key \<notin> fst ` set m
     \<Longrightarrow> map_of (Properties ob') key = map_of (Properties ob) key"
proof (induction m arbitrary: ob)
  case Nil
  then show ?case by simp
next
  case (Cons kv m)
  obtain k v where kv: "kv = (k, v)" by (cases kv)
  from Cons.prems(2) kv have ne: "key \<noteq> k" and rest: "key \<notin> fst ` set m" by auto
  let ?ob1 = "fst (GetPropertyAddr ob k True True)"
  have ob1: "map_of (Properties ?ob1) key = map_of (Properties ob) key"
    using ne by (simp add: GetPropertyAddr_init_props)
  from Cons.prems(1) kv consider
      (stored) val where "setRuntimeProperties (Pointer_Set ?ob1 k val) m = Inr ob'"
    | (dropped) "setRuntimeProperties ?ob1 m = Inr ob'"
    by (cases "GetPropertyAddr ob k True True") (auto split: option.splits if_splits sum.splits)
  then show ?case
  proof cases
    case stored
    from Cons.IH [OF stored rest] ne ob1 show ?thesis
      by (simp add: Properties_Pointer_Set)
  next
    case dropped
    from Cons.IH [OF dropped rest] ob1 show ?thesis by simp
  qed
qed

lemma setRuntimeProperties_writes:
  "setRuntimeProperties ob m = Inr ob' \<Longrightarrow> distinct (map fst m) \<Longrightarrow> (key, w) \<in> set m
     \<Longrightarrow> IsUnset ob key
     \<Longrightarrow> \<exists>val. createRuntimeProperty w = Inr val \<and> map_of (Properties ob') key = Some val"
proof (induction m arbitrary: ob)
  case Nil
  then show ?case by simp
next
  case (Cons kv m)
  obtain k v where kv: "kv = (k, v)" by (cases kv)
  let ?ob1 = "fst (GetPropertyAddr ob k True True)"
  from Cons.prems(2) kv have dist: "distinct (map fst m)" and fresh: "k \<notin> fst ` set m"
    by auto
  show ?case
  proof (cases "key = k")
    case True
    with Cons.prems(2,3) kv have w: "w = v" by (auto simp: image_iff)
    from True Cons.prems(4) have "IsNull (the (snd (GetPropertyAddr ob k True True)))"
      by (auto simp: IsUnset_def GetPropertyAddr_def IsNull_rt_Null split: option.splits)
    with Cons.prems(1) kv obtain val where
      val: "createRuntimeProperty v = Inr val" and
      run: "setRuntimeProperties (Pointer_Set ?ob1 k val) m = Inr ob'"
      by (cases "GetPropertyAddr ob k True True") (auto split: option.splits sum.splits)
    from setRuntimeProperties_other [OF run fresh]
    have "map_of (Properties ob') k = Some val" by (simp add: Properties_Pointer_Set)
    with val w True show ?thesis by simp
  next
    case False
    with Cons.prems(3) kv have mem: "(key, w) \<in> set m" by auto
    from False Cons.prems(4) have un1: "IsUnset ?ob1 key"
      by (simp add: IsUnset_def GetPropertyAddr_init_props)
    from Cons.prems(1) kv consider
        (stored) val where "setRuntimeProperties (Pointer_Set ?ob1 k val) m = Inr ob'"
      | (dropped) "setRuntimeProperties ?ob1 m = Inr ob'"
      by (cases "GetPropertyAddr ob k True True") (auto split: option.splits if_splits sum.splits)
    then show ?thesis
    proof cases
      case stored
      from False un1 have "IsUnset (Pointer_Set ?ob1 k val) key"
        by (simp add: IsUnset_def Properties_Pointer_Set)
      from Cons.IH [OF stored dist mem this] show ?thesis .
    next
      case dropped
      from Cons.IH [OF dropped dist mem un1] show ?thesis .
    qed
  qed
qed

lemma hydratable_total:
  "(\<forall>kv \<in> set m. hydratable (snd kv)) \<longrightarrow> (\<exists>ob'. setRuntimeProperties ob m = Inr ob')"
  and "hydratable v \<longrightarrow> (\<exists>val. createRuntimeProperty v = Inr val)"
  and "(\<forall>x \<in> set src. hydratable x) \<longrightarrow> (\<exists>arr'. createArrayElements src arr = Inr arr')"
proof (induction ob m and v and src arr
    rule: setRuntimeProperties_createRuntimeProperty_createArrayElements.induct)
  case (2 ob k v props)
  show ?case
  proof
    assume h: "\<forall>kv \<in> set ((k, v) # props). hydratable (snd kv)"
    obtain ob1 p where g: "GetPropertyAddr ob k True True = (ob1, Some p)"
      by (cases "map_of (Properties ob) k") (auto simp: GetPropertyAddr_def)
    show "\<exists>ob'. setRuntimeProperties ob ((k, v) # props) = Inr ob'"
    proof (cases "IsNull p")
      case True
      from h "2.IH"(1) [OF g [symmetric] refl True] obtain val where
        val: "createRuntimeProperty v = Inr val" by auto
      from h "2.IH"(2) [OF g [symmetric] refl True val] obtain ob' where
        "setRuntimeProperties (Pointer_Set ob1 k val) props = Inr ob'" by auto
      with g True val show ?thesis by simp
    next
      case False
      from h "2.IH"(3) [OF g [symmetric] refl False] obtain ob' where
        "setRuntimeProperties ob1 props = Inr ob'" by auto
      with g False show ?thesis by simp
    qed
  qed
next
  case (7 src)
  then show ?case by (auto split: sum.splits)
next
  case (12 elem src arr)
  then show ?case by (auto split: sum.splits)
qed simp_all

text \<open>
  Claim C4. Hydration writes onto the property of a key only where that
  property is unset: a property that holds a value other than null keeps it
  (the incoming value is dropped, whatever it is, and no error arises), and
  when every key of the map is set on the object, the object is left as it
  was. Where the property of a key is unset, the translated value of the entry
  is written.
\<close>

theorem setRuntimeProperties_only_unset:
  "(setRuntimeProperties ob m = Inr ob' \<and> map_of (Properties ob) key = Some q \<and> \<not> IsNull q
      \<longrightarrow> map_of (Properties ob') key = Some q) \<and>
   ((\<forall>kv \<in> set m. \<not> IsUnset ob (fst kv)) \<longrightarrow> setRuntimeProperties ob m = Inr ob) \<and>
   (setRuntimeProperties ob m = Inr ob' \<and> distinct (map fst m) \<and> (key, w) \<in> set m \<and>
    IsUnset ob key
      \<longrightarrow> (\<exists>val. createRuntimeProperty w = Inr val \<and> map_of (Properties ob') key = Some val))"
proof (intro conjI impI)
  assume "setRuntimeProperties ob m = Inr ob' \<and> map_of (Properties ob) key = Some q \<and> \<not> IsNull q"
  then show "map_of (Properties ob') key = Some q"
    using setRuntimeProperties_keeps by blast
next
  assume "\<forall>kv \<in> set m. \<not> IsUnset ob (fst kv)"
  then have "\<forall>(k, v) \<in> set m. \<exists>q. map_of (Properties ob) k = Some q \<and> \<not> IsNull q"
    by (auto simp: IsUnset_def split: option.splits)
  then show "setRuntimeProperties ob m = Inr ob"
    by (rule setRuntimeProperties_dropped)
next
  assume "setRuntimeProperties ob m = Inr ob' \<and> distinct (map fst m) \<and> (key, w) \<in> set m \<and>
    IsUnset ob key"
  then show "\<exists>val. createRuntimeProperty w = Inr val \<and> map_of (Properties ob') key = Some val"
    using setRuntimeProperties_writes by blast
qed

theorem setRuntimeProperties_only_unset_witness:
  "setRuntimeProperties (obj ex_created)
      [(''size'', MakeComputed (NewNumberProperty 0)), (''zone'', NewStringProperty ''eu'')] =
     Inr (NewObject_rt (Class ''aws:rds/instance:Instance'' True) NoValue
            [(''id'', NewStringObject ''i-0''), (''size'', NewNumberObject 20),
             (''zone'', NewStringObject ''eu'')]) \<and>
   map_of (Properties (obj ex_created)) ''size'' = Some (NewNumberObject 20) \<and>
   \<not> IsNull (NewNumberObject 20) \<and>
   IsUnset (obj ex_created) ''zone'' \<and>
   \<not> IsUnset (obj ex_created) ''size'' \<and>
   setRuntimeProperties (obj ex_created) [(''size'', NewNumberProperty 1)] = Inr (obj ex_created) \<and>
   createRuntimeProperty (NewStringProperty ''eu'') = Inr (NewStringObject ''eu'')"
proof -
  let ?m = "[(''size'', MakeComputed (NewNumberProperty 0)), (''zone'', NewStringProperty ''eu'')]"
  let ?ob' = "NewObject_rt (Class ''aws:rds/instance:Instance'' True) NoValue
            [(''id'', NewStringObject ''i-0''), (''size'', NewNumberObject 20),
             (''zone'', NewStringObject ''eu'')]"
  have run: "setRuntimeProperties (obj ex_created) ?m = Inr ?ob'"
    by (simp add: ex_created_def GetPropertyAddr_def IsNull_def NewNumberObject_def
        NewStringObject_def rt_Null_def Pointer_Set_def)
  have h1: "map_of (Properties (obj ex_created)) ''size'' = Some (NewNumberObject 20)"
    by (simp add: ex_created_def)
  have h2: "\<not> IsNull (NewNumberObject 20)" by (simp add: IsNull_def NewNumberObject_def)
  have h3: "IsUnset (obj ex_created) ''zone''" by (simp add: IsUnset_def ex_created_def)
  have h4: "\<not> IsUnset (obj ex_created) ''size''"
    by (simp add: IsUnset_def ex_created_def IsNull_def NewNumberObject_def)
  have h5: "\<forall>kv \<in> set [(''size'', NewNumberProperty 1)]. \<not> IsUnset (obj ex_created) (fst kv)"
    using h4 by simp
  have h6: "distinct (map fst ?m) \<and> (''zone'', NewStringProperty ''eu'') \<in> set ?m" by simp
  from run h1 h2 h3 h4 h5 h6
    setRuntimeProperties_only_unset [of "obj ex_created" ?m ?ob' "''size''" "NewNumberObject 20"
      "NewStringProperty ''eu''"]
    setRuntimeProperties_only_unset [of "obj ex_created" "[(''size'', NewNumberProperty 1)]" ?ob'
      "''zone''" "NewNumberObject 20" "NewStringProperty ''eu''"]
  show ?thesis by simp
qed

section \<open>Identity: URN and ID\<close>

text \<open>Setting the ID of a resource whose ID is not concretely assigned
  succeeds; it changes the ID property and nothing else.\<close>

lemma SetID_unassigned:
  assumes "IDUnassigned r"
  shows "\<exists>ob. SetID r i = Inr (r\<lparr>obj := ob\<rparr>) \<and> Type_of ob = Type_of (obj r) \<and>
           (\<forall>k. map_of (Properties ob) k =
                  (if k = IDProperty then Some (NewStringObject i)
                   else map_of (Properties (obj r)) k))"
proof -
  let ?ob = "Pointer_Set (fst (GetPropertyAddr (obj r) IDProperty True True)) IDProperty
               (NewStringObject i)"
  have run: "SetID r i = Inr (r\<lparr>obj := ?ob\<rparr>)"
  proof (cases "map_of (Properties (obj r)) IDProperty")
    case None
    then show ?thesis
      by (simp add: SetID_def GetPropertyAddr_def IsNull_def rt_Null_def)
  next
    case (Some p)
    with assms have "IsNull p \<or> IsComputed p" by (simp add: IDUnassigned_def)
    with Some show ?thesis
      by (auto simp: SetID_def GetPropertyAddr_def)
  qed
  have ty: "Type_of ?ob = Type_of (obj r)"
    by (simp add: Pointer_Set_def GetPropertyAddr_init_Type)
  have props: "map_of (Properties ?ob) k =
                  (if k = IDProperty then Some (NewStringObject i)
                   else map_of (Properties (obj r)) k)"
    for k
    by (simp add: Properties_Pointer_Set GetPropertyAddr_init_props)
  from run ty props show ?thesis by blast
qed

text \<open>
  Claim C6. \<open>SetURN\<close> fails with an invariant violation when the resource
  already has a URN. \<open>SetID\<close> fails with an invariant violation when the ID
  property holds a string; when the ID property is missing, null or computed
  it succeeds, and the ID property then holds the given ID as a string.
\<close>

theorem SetURN_SetID_once:
  "(HasURN r \<longrightarrow> SetURN r m = Inl InvariantViolation) \<and>
   (\<forall>p. map_of (Properties (obj r)) IDProperty = Some p \<and> IsString p
        \<longrightarrow> SetID r i = Inl InvariantViolation) \<and>
   (IDUnassigned r \<longrightarrow>
      (\<exists>r'. SetID r i = Inr r' \<and>
            map_of (Properties (obj r')) IDProperty = Some (NewStringObject i)))"
proof (intro conjI allI impI)
  assume "HasURN r"
  then show "SetURN r m = Inl InvariantViolation" by (simp add: SetURN_def)
next
  fix p assume "map_of (Properties (obj r)) IDProperty = Some p \<and> IsString p"
  then show "SetID r i = Inl InvariantViolation"
    using IsString_not_null_computed [of p] by (simp add: SetID_def GetPropertyAddr_def)
next
  assume "IDUnassigned r"
  from SetID_unassigned [OF this, of i] obtain ob where
    "SetID r i = Inr (r\<lparr>obj := ob\<rparr>)"
    "map_of (Properties ob) IDProperty = Some (NewStringObject i)"
    by auto
  then show "\<exists>r'. SetID r i = Inr r' \<and>
            map_of (Properties (obj r')) IDProperty = Some (NewStringObject i)"
    by auto
qed

theorem SetURN_SetID_once_witness:
  "HasURN ex_planned \<and> SetURN ex_planned ''urn:app::other'' = Inl InvariantViolation \<and>
   IDUnassigned ex_planned \<and>
   (\<exists>r'. SetID ex_planned ''i-1'' = Inr r' \<and>
         map_of (Properties (obj r')) IDProperty = Some (NewStringObject ''i-1'')) \<and>
   map_of (Properties (obj ex_created)) IDProperty = Some (NewStringObject ''i-0'') \<and>
   IsString (NewStringObject ''i-0'') \<and>
   SetID ex_created ''i-1'' = Inl InvariantViolation"
proof -
  have h1: "HasURN ex_planned" by (simp add: HasURN_def ex_planned_def)
  have h2: "IDUnassigned ex_planned"
    by (simp add: IDUnassigned_def ex_planned_def ex_computed_id_def IDProperty_def)
  have h3: "map_of (Properties (obj ex_created)) IDProperty = Some (NewStringObject ''i-0'')"
    by (simp add: ex_created_def IDProperty_def)
  have h4: "IsString (NewStringObject ''i-0'')"
    by (simp add: IsString_def NewStringObject_def)
  from h1 h2 h3 h4
    SetURN_SetID_once [of ex_planned "''urn:app::other''" "''i-1''"]
    SetURN_SetID_once [of ex_created "''urn:app::other''" "''i-1''"]
  show ?thesis by blast
qed

text \<open>
  Claim C7. Checking \<open>HasID\<close> first is meant to make reading the ID safe.
  For the resource \<open>ex_planned\<close>, whose ID property holds a computed value,
  \<open>HasID\<close> returns true and \<open>ID\<close> fails with an invariant violation.
\<close>

theorem HasID_true_ID_fails:
  "HasID ex_planned = Inr True \<and> ID ex_planned = Inl InvariantViolation"
  by (simp add: HasID_def ID_def getIDObject_def IsResourceObject_def GetPropertyAddr_def
      IDProperty_def ex_planned_def ex_computed_id_def IsNull_def IsString_def)

section \<open>Capture\<close>

text \<open>
  Claim C2, as amended. A resource-typed value is captured as the string
  property holding the referenced resource's ID when the ID property holds a
  string, and as a computed string (with the empty string as placeholder)
  when the ID property is missing or holds a computed value. When the ID
  property is present and holds anything else (null, for one), capture fails
  with an invariant violation.
\<close>

theorem copyObjectProperty_resource:
  assumes "IsResourceType (Type_of ob)"
  shows "(\<forall>p s. map_of (Properties ob) IDProperty = Some p \<and> Type_of p = types_String \<and>
              Value_of p = StringV s
            \<longrightarrow> copyObjectProperty resobj ob = Inr (NewStringProperty s)) \<and>
         ((map_of (Properties ob) IDProperty = None \<or>
           (\<exists>p. map_of (Properties ob) IDProperty = Some p \<and> IsComputed p))
            \<longrightarrow> copyObjectProperty resobj ob = Inr (MakeComputed (NewStringProperty []))) \<and>
         (\<forall>p. map_of (Properties ob) IDProperty = Some p \<and> \<not> IsString p \<and> \<not> IsComputed p
            \<longrightarrow> copyObjectProperty resobj ob = Inl InvariantViolation)"
proof -
  obtain t v props where ob: "ob = NewObject_rt t v props" by (cases ob)
  have a: "copyObjectProperty resobj ob = Inr (NewStringProperty s)"
    if "map_of (Properties ob) IDProperty = Some p" "Type_of p = types_String"
      "Value_of p = StringV s"
    for p s
    using that assms ob
    by (simp add: getIDObject_def IsResourceObject_def GetPropertyAddr_def IsString_def
        StringValue_def)
  have b: "copyObjectProperty resobj ob = Inr (MakeComputed (NewStringProperty []))"
    if "map_of (Properties ob) IDProperty = None"
    using that assms ob
    by (simp add: getIDObject_def IsResourceObject_def GetPropertyAddr_def)
  have c: "copyObjectProperty resobj ob = Inr (MakeComputed (NewStringProperty []))"
    if "map_of (Properties ob) IDProperty = Some p" "IsComputed p" for p
  proof -
    from that(2) have "\<not> IsString p"
      by (cases p rule: IsComputed.cases) (auto simp: IsString_def)
    with that assms ob show ?thesis
      by (simp add: getIDObject_def IsResourceObject_def GetPropertyAddr_def)
  qed
  have d: "copyObjectProperty resobj ob = Inl InvariantViolation"
    if "map_of (Properties ob) IDProperty = Some p" "\<not> IsString p" "\<not> IsComputed p" for p
    using that assms ob
    by (simp add: getIDObject_def IsResourceObject_def GetPropertyAddr_def)
  from a b c d show ?thesis by blast
qed

theorem copyObjectProperty_resource_witness:
  "IsResourceType (Type_of (obj ex_created)) \<and>
   map_of (Properties (obj ex_created)) IDProperty = Some (NewStringObject ''i-0'') \<and>
   copyObjectProperty None (obj ex_created) = Inr (NewStringProperty ''i-0'') \<and>
   IsResourceType (Type_of (obj ex_fresh)) \<and>
   map_of (Properties (obj ex_fresh)) IDProperty = None \<and>
   copyObjectProperty None (obj ex_fresh) = Inr (MakeComputed (NewStringProperty [])) \<and>
   IsResourceType (Type_of (obj ex_null_id)) \<and>
   map_of (Properties (obj ex_null_id)) IDProperty = Some rt_Null \<and>
   \<not> IsString rt_Null \<and> \<not> IsComputed rt_Null \<and>
   copyObjectProperty None (obj ex_null_id) = Inl InvariantViolation"
proof -
  have h1: "IsResourceType (Type_of (obj ex_created))" by (simp add: ex_created_def)
  have h2: "map_of (Properties (obj ex_created)) IDProperty = Some (NewStringObject ''i-0'')"
    by (simp add: ex_created_def IDProperty_def)
  have h3: "Type_of (NewStringObject ''i-0'') = types_String \<and>
            Value_of (NewStringObject ''i-0'') = StringV ''i-0''"
    by (simp add: NewStringObject_def)
  have h4: "IsResourceType (Type_of (obj ex_fresh))" by (simp add: ex_fresh_def)
  have h5: "map_of (Properties (obj ex_fresh)) IDProperty = None"
    by (simp add: ex_fresh_def IDProperty_def)
  have h6: "IsResourceType (Type_of (obj ex_null_id))" by (simp add: ex_null_id_def)
  have h7: "map_of (Properties (obj ex_null_id)) IDProperty = Some rt_Null"
    by (simp add: ex_null_id_def IDProperty_def)
  have h8: "\<not> IsString rt_Null \<and> \<not> IsComputed rt_Null"
    by (simp add: IsString_def rt_Null_def)
  from h1 h2 h3 h4 h5 h6 h7 h8
    copyObjectProperty_resource [OF h1, of None]
    copyObjectProperty_resource [OF h4, of None]
    copyObjectProperty_resource [OF h6, of None]
  show ?thesis by blast
qed

text \<open>The claim as it stands fails for a resource whose ID property holds
  null: hydrating the null value under the key of the ID property onto
  \<open>ex_fresh\<close> gives \<open>ex_null_id\<close>, whose ID is not assigned, and capturing a
  reference to it fails.\<close>

theorem null_id_counterexample:
  "setRuntimeProperties (obj ex_fresh) [(''id'', NewNullProperty)] = Inr (obj ex_null_id) \<and>
   IsResourceType (Type_of (obj ex_null_id)) \<and>
   IDUnassigned ex_null_id \<and>
   copyObjectProperty None (obj ex_null_id) = Inl InvariantViolation"
  by (simp add: ex_fresh_def ex_null_id_def GetPropertyAddr_def Pointer_Set_def IsNull_def
      rt_Null_def NewStringObject_def IDUnassigned_def IDProperty_def getIDObject_def
      IsResourceObject_def IsString_def)

text \<open>
  Claim C3, as amended. For a computed-typed value whose declared element kind
  is null, bool, number, string, object, dynamic, an array or a class, capture
  emits an output value exactly when the computation has no free expression,
  has exactly one source, and that source is the resource-object context of
  the call; in every other case it emits a computed value; in both cases the
  wrapped placeholder is the zero value of the element kind. For any other
  element kind capture fails with an invariant violation.
\<close>

theorem copyObjectProperty_computed:
  "(\<forall>z. spec_placeholder elem = Some z \<longrightarrow>
      copyObjectProperty resobj (NewObject_rt (ComputedType elem) (ComputedV expr sources) props) =
        (if \<not> expr \<and> (\<exists>a. sources = [a] \<and> resobj = Some a)
         then Inr (MakeOutput z) else Inr (MakeComputed z))) \<and>
   (spec_placeholder elem = None \<longrightarrow>
      copyObjectProperty resobj (NewObject_rt (ComputedType elem) (ComputedV expr sources) props) =
        Inl InvariantViolation)"
proof -
  have src: "(length sources = Suc 0 \<and> Some (sources ! 0) = resobj) =
             (\<exists>a. sources = [a] \<and> resobj = Some a)"
    by (cases sources) auto
  show ?thesis
    by (cases elem) (simp_all add: src Let_def)
qed

theorem copyObjectProperty_computed_witness:
  "spec_placeholder types_String = Some (NewStringProperty []) \<and>
   copyObjectProperty (Some 7) (NewObject_rt (ComputedType types_String) (ComputedV False [7]) [])
     = Inr (MakeOutput (NewStringProperty [])) \<and>
   copyObjectProperty (Some 7) (NewObject_rt (ComputedType types_String) (ComputedV True [7]) [])
     = Inr (MakeComputed (NewStringProperty [])) \<and>
   spec_placeholder FunctionType = None \<and>
   copyObjectProperty (Some 7) (NewObject_rt (ComputedType FunctionType) (ComputedV False [7]) [])
     = Inl InvariantViolation"
  using copyObjectProperty_computed [of types_String "Some 7" False "[7]" "[]"]
    copyObjectProperty_computed [of types_String "Some 7" True "[7]" "[]"]
    copyObjectProperty_computed [of FunctionType "Some 7" False "[7]" "[]"]
  by simp

text \<open>The claim as it stands fails for a computed map: nothing is emitted.\<close>

theorem computed_map_counterexample:
  "copyObjectProperty (Some 7)
     (NewObject_rt (ComputedType (MapType types_String types_String)) (ComputedV True [3]) [])
   = Inl InvariantViolation"
  by simp


lemma copyObjectProperties_keys:
  "copyObjectProperties resobj props acc = Inr m \<Longrightarrow>
     fst ` set m = fst ` set acc \<union> fst ` set props"
proof (induction props arbitrary: acc)
  case Nil
  then show ?case by simp
next
  case (Cons kv props)
  obtain k ob where kv: "kv = (k, ob)" by (cases kv)
  from Cons.prems kv obtain pv where
    "copyObjectProperties resobj props (AList.update k pv acc) = Inr m"
    by (auto split: sum.splits)
  from Cons.IH [OF this] kv show ?case by (auto simp: dom_update)
qed

lemma copyObject_keys:
  "copyObject resobj ob = Inr m \<Longrightarrow> fst ` set m = fst ` set (Properties ob)"
  using copyObjectProperties_keys [of resobj "Properties ob" "[]" m] by (cases ob) simp

text \<open>
  Claim C5. Capture is meant to skip a function-typed property, so that the
  resulting map has no entry for its key. For the resource \<open>ex_with_method\<close>
  the captured map has an entry for the key of the function-typed property,
  holding the zero property value. A property of an unrecognized type makes
  capture fail with an invariant violation.
\<close>

theorem function_property_kept:
  "CopyProperties ex_with_method =
     Inr [(''name'', NewStringProperty ''jobs''), (''start'', NewNullProperty)] \<and>
   copyObjectProperty (Some 10) (NewObject_rt (OtherType ''module'') NoValue []) =
     Inl InvariantViolation"
  by (simp add: CopyProperties_def ex_with_method_def NewStringObject_def StringValue_def
      PropertyValue_zero_def)

text \<open>With the nil context, capture yields no output value.\<close>

lemma noOutput_placeholder: "spec_placeholder t = Some z \<Longrightarrow> noOutput z"
  by (cases t) auto



lemma noOutput_Below: "noOutput pv \<Longrightarrow> noOutputBelow pv"
  by (cases pv) auto





section \<open>The state snapshot builder\<close>

lemma Update_ok:
  assumes res: "IsResourceObject (obj r)" and urn: "HasURN r" and un: "IDUnassigned r"
    and cap: "CopyProperties r = Inr inputs" and hyd: "\<forall>kv \<in> set outs. hydratable (snd kv)"
  shows "\<exists>r'. Update r i (Some outs) =
            Inr (\<lparr>state_type = Type r, state_urn = urn r, state_id = i,
                  state_inputs = inputs, state_outputs = Some outs\<rparr>, r') \<and>
          HasID r' = Inr True \<and> ID r' = Inr i"
proof -
  from SetID_unassigned [OF un, of i] obtain ob1 where
    set: "SetID r i = Inr (r\<lparr>obj := ob1\<rparr>)" and ty1: "Type_of ob1 = Type_of (obj r)" and
    id1: "map_of (Properties ob1) IDProperty = Some (NewStringObject i)"
    by auto
  from hydratable_total(1) [of outs ob1] hyd obtain ob2 where
    run: "setRuntimeProperties ob1 outs = Inr ob2" by auto
  have nn: "\<not> IsNull (NewStringObject i)" by (simp add: IsNull_def NewStringObject_def)
  from setRuntimeProperties_keeps [OF run id1 nn]
  have id2: "map_of (Properties ob2) IDProperty = Some (NewStringObject i)" .
  from setRuntimeProperties_Type [OF run] ty1 have ty2: "Type_of ob2 = Type_of (obj r)" by simp
  let ?r' = "r\<lparr>obj := ob2\<rparr>"
  have upd: "Update r i (Some outs) =
            Inr (\<lparr>state_type = Type r, state_urn = urn r, state_id = i,
                  state_inputs = inputs, state_outputs = Some outs\<rparr>, ?r')"
    using urn cap set run ty2 by (simp add: Update_def SetProperties_def NewState_def Type_def)
  have gid: "getIDObject (obj ?r') = Inr (Some (NewStringObject i))"
    using res ty2 id2
    by (simp add: getIDObject_def IsResourceObject_def GetPropertyAddr_def IsString_def
        NewStringObject_def)
  have has: "HasID ?r' = Inr True" using gid nn by (simp add: HasID_def)
  have idr: "ID ?r' = Inr i"
    using gid by (simp add: ID_def IsString_def NewStringObject_def StringValue_def)
  from upd has idr show ?thesis by blast
qed

text \<open>
  Claim C1, as amended. For a resource object with a URN, whose ID is not
  concretely assigned, whose capture succeeds and to which hydratable outputs
  (not nil, free of computed and output values) are supplied, \<open>Update\<close>
  returns a state whose type and URN are the resource's, whose ID is the
  supplied ID, whose inputs are the property map captured before the call
  changed anything and whose outputs are the supplied outputs; afterwards
  \<open>HasID\<close> is true and \<open>ID\<close> is the supplied ID. Without a URN, \<open>Update\<close>
  fails with an invariant violation.
\<close>

theorem Update_state:
  "(IsResourceObject (obj r) \<and> HasURN r \<and> IDUnassigned r \<and> CopyProperties r = Inr inputs \<and>
    (\<forall>kv \<in> set outs. hydratable (snd kv))
      \<longrightarrow> (\<exists>r'. Update r i (Some outs) =
                  Inr (\<lparr>state_type = Type r, state_urn = urn r, state_id = i,
                        state_inputs = inputs, state_outputs = Some outs\<rparr>, r') \<and>
                HasID r' = Inr True \<and> ID r' = Inr i)) \<and>
   (\<not> HasURN r \<longrightarrow> Update r i outputs = Inl InvariantViolation)"
  using Update_ok [of r inputs outs i] by (simp add: Update_def)

text \<open>The claim as it stands fails when an output is a computed value: the
  resource has a URN and no concrete ID, and \<open>Update\<close> fails.\<close>

theorem Update_computed_output_counterexample:
  "HasURN ex_planned \<and> IDUnassigned ex_planned \<and>
   Update ex_planned ''i-1'' (Some [(''ip'', MakeComputed (NewStringProperty []))]) =
     Inl InvariantViolation"
  by (simp add: HasURN_def IDUnassigned_def ex_planned_def ex_computed_id_def IDProperty_def
      Update_def CopyProperties_def SetID_def GetPropertyAddr_def SetProperties_def
      Pointer_Set_def NewStringObject_def rt_Null_def IsNull_def)

theorem Update_state_witness:
  "IsResourceObject (obj ex_planned) \<and> HasURN ex_planned \<and> IDUnassigned ex_planned \<and>
   CopyProperties ex_planned = Inr [(''id'', MakeOutput (NewStringProperty []))] \<and>
   (\<exists>r'. Update ex_planned ''i-1'' (Some [(''ip'', NewStringProperty ''10.0.0.1'')]) =
           Inr (\<lparr>state_type = ''aws:ec2/instance:Instance'', state_urn = ''urn:app::web'',
                 state_id = ''i-1'',
                 state_inputs = [(''id'', MakeOutput (NewStringProperty []))],
                 state_outputs = Some [(''ip'', NewStringProperty ''10.0.0.1'')]\<rparr>, r') \<and>
         HasID r' = Inr True \<and> ID r' = Inr ''i-1'') \<and>
   \<not> HasURN ex_fresh \<and> Update ex_fresh ''i-1'' None = Inl InvariantViolation"
proof -
  have h1: "IsResourceObject (obj ex_planned)" by (simp add: IsResourceObject_def ex_planned_def)
  have h2: "HasURN ex_planned" by (simp add: HasURN_def ex_planned_def)
  have h3: "IDUnassigned ex_planned"
    by (simp add: IDUnassigned_def ex_planned_def ex_computed_id_def IDProperty_def)
  have h4: "CopyProperties ex_planned = Inr [(''id'', MakeOutput (NewStringProperty []))]"
    by (simp add: CopyProperties_def ex_planned_def ex_computed_id_def)
  have h5: "\<forall>kv \<in> set [(''ip'', NewStringProperty ''10.0.0.1'')]. hydratable (snd kv)" by simp
  have h6: "\<not> HasURN ex_fresh" by (simp add: HasURN_def ex_fresh_def)
  have t: "Type ex_planned = ''aws:ec2/instance:Instance'' \<and> urn ex_planned = ''urn:app::web''"
    by (simp add: Type_def ex_planned_def)
  from h1 h2 h3 h4 h5 h6 t
    Update_state [of ex_planned "[(''id'', MakeOutput (NewStringProperty []))]"
      "[(''ip'', NewStringProperty ''10.0.0.1'')]" "''i-1''" None]
    Update_state [of ex_fresh "[]" "[]" "''i-1''" None]
  show ?thesis by simp
qed

section \<open>Stack import: mismatches and pending operations\<close>

lemma checkResources_force:
  "checkResources c True rs (ws, result) =
     (ws @ map (mismatchWarning c) (filter (\<lambda>res. URN_Stack c (URN res) \<noteq> StackName c) rs),
      result)"
  by (induction rs arbitrary: ws) (simp_all add: mismatchWarning_def)

lemma checkResources_gather:
  "checkResources c False rs (ws, result) =
     (ws,
      if filter (\<lambda>res. URN_Stack c (URN res) \<noteq> StackName c) rs = [] then result
      else Some (multierror_Error
                   (errs_of result @
                    map (\<lambda>res. errors_New (mismatchMessage c res))
                      (filter (\<lambda>res. URN_Stack c (URN res) \<noteq> StackName c) rs))))"
proof (induction rs arbitrary: result)
  case Nil
  then show ?case by simp
next
  case (Cons res rs)
  show ?case
  proof (cases "URN_Stack c (URN res) \<noteq> StackName c")
    case True
    have "errs_of (Some (multierror_Append result (errors_New (mismatchMessage c res)))) =
          errs_of result @ [errors_New (mismatchMessage c res)]"
      by (cases result) (simp_all add: multierror_Append_def)
    with True Cons.IH [of "Some (multierror_Append result (errors_New (mismatchMessage c res)))"]
    show ?thesis
      by (cases result) (simp_all add: multierror_Append_def)
  next
    case False
    with Cons.IH [of result] show ?thesis by simp
  qed
qed

lemma stackImport_proceeds:
  assumes "force \<or> mismatches c snapshot = []"
  shows "\<exists>imp pr ret. stackImport c force snapshot =
           \<lparr>warnings = (if force then map (mismatchWarning c) (mismatches c snapshot) else []) @
                        map pendingWarning (pendingOps snapshot),
            serialized = Some (snapshot\<lparr>PendingOperations := None\<rparr>),
            imported = imp, printed = pr, returned = ret\<rparr> \<and>
           (\<forall>dep. imp = Some dep \<longrightarrow>
              MarshalDeployment c (snapshot\<lparr>PendingOperations := None\<rparr>) = Inr (Deployment dep)
              \<and> Version dep = DeploymentSchemaVersionCurrent c)"
proof -
  have clear: "clearPendingOperations snapshot ws =
      (snapshot\<lparr>PendingOperations := None\<rparr>, ws @ map pendingWarning (pendingOps snapshot))" for ws
    by (cases "PendingOperations snapshot")
      (simp_all add: clearPendingOperations_def pendingOps_def pendingWarning_def)
  have chk: "checkResources c force (Resources snapshot) ([], None) =
      ((if force then map (mismatchWarning c) (mismatches c snapshot) else []), None)"
    using assms
    by (cases force) (simp_all add: checkResources_force checkResources_gather mismatches_def)
  show ?thesis
    unfolding stackImport_def chk
    by (simp add: clear Let_def split: sum.splits option.splits)
qed


text \<open>
  Claim C9. Whenever the command gets past the check of the resources (with
  force, or when no resource names another stack), the snapshot it serializes
  has no pending operations, one warning has been issued for each pending
  operation of the imported snapshot, and a deployment handed to the backend
  is the serialization of that snapshot. Otherwise nothing is serialized or
  imported.
\<close>

theorem stackImport_pending:
  "(force \<or> mismatches c snapshot = [] \<longrightarrow>
      serialized (stackImport c force snapshot) = Some (snapshot\<lparr>PendingOperations := None\<rparr>) \<and>
      warnings (stackImport c force snapshot) =
        (if force then map (mismatchWarning c) (mismatches c snapshot) else []) @
        map pendingWarning (pendingOps snapshot) \<and>
      (\<forall>dep. imported (stackImport c force snapshot) = Some dep \<longrightarrow>
         MarshalDeployment c (snapshot\<lparr>PendingOperations := None\<rparr>) = Inr (Deployment dep))) \<and>
   (\<not> force \<and> mismatches c snapshot \<noteq> [] \<longrightarrow>
      serialized (stackImport c force snapshot) = None \<and>
      imported (stackImport c force snapshot) = None)"
proof (intro conjI impI)
  assume a: "force \<or> mismatches c snapshot = []"
  from stackImport_proceeds [OF a] obtain imp pr ret where
    run: "stackImport c force snapshot =
           \<lparr>warnings = (if force then map (mismatchWarning c) (mismatches c snapshot) else []) @
                        map pendingWarning (pendingOps snapshot),
            serialized = Some (snapshot\<lparr>PendingOperations := None\<rparr>),
            imported = imp, printed = pr, returned = ret\<rparr>"
    and dep: "\<forall>dep. imp = Some dep \<longrightarrow>
              MarshalDeployment c (snapshot\<lparr>PendingOperations := None\<rparr>) = Inr (Deployment dep)
              \<and> Version dep = DeploymentSchemaVersionCurrent c"
    by blast
  from run show "serialized (stackImport c force snapshot) =
      Some (snapshot\<lparr>PendingOperations := None\<rparr>)" by simp
  from run show "warnings (stackImport c force snapshot) =
        (if force then map (mismatchWarning c) (mismatches c snapshot) else []) @
        map pendingWarning (pendingOps snapshot)" by simp
  from run dep show "\<forall>dep. imported (stackImport c force snapshot) = Some dep \<longrightarrow>
         MarshalDeployment c (snapshot\<lparr>PendingOperations := None\<rparr>) = Inr (Deployment dep)"
    by simp
next
  assume "\<not> force \<and> mismatches c snapshot \<noteq> []"
  then show "serialized (stackImport c force snapshot) = None"
    by (simp add: stackImport_def checkResources_gather mismatches_def)
next
  assume "\<not> force \<and> mismatches c snapshot \<noteq> []"
  then show "imported (stackImport c force snapshot) = None"
    by (simp add: stackImport_def checkResources_gather mismatches_def)
qed

lemma ex_mismatches: "mismatches ex_backend ex_snapshot = [ex_res_b]"
  by (simp add: mismatches_def ex_backend_def ex_snapshot_def ex_res_a_def ex_res_b_def
      ex_res_c_def)

lemma ex_mismatches_own: "mismatches ex_backend ex_snapshot_own = []"
  by (simp add: mismatches_def ex_backend_def ex_snapshot_own_def ex_res_a_def ex_res_c_def)


theorem stackImport_pending_witness:
  "mismatches ex_backend ex_snapshot_own = [] \<and>
   serialized (stackImport ex_backend False ex_snapshot_own) =
     Some \<lparr>Resources = [ex_res_a, ex_res_c], PendingOperations = None\<rparr> \<and>
   warnings (stackImport ex_backend False ex_snapshot_own) = [pendingWarning ex_op] \<and>
   imported (stackImport ex_backend False ex_snapshot_own) =
     Some \<lparr>Version = 1, Deployment = URN ex_res_a @ URN ex_res_c\<rparr> \<and>
   MarshalDeployment ex_backend \<lparr>Resources = [ex_res_a, ex_res_c], PendingOperations = None\<rparr> =
     Inr (URN ex_res_a @ URN ex_res_c) \<and>
   mismatches ex_backend ex_snapshot \<noteq> [] \<and>
   serialized (stackImport ex_backend False ex_snapshot) = None \<and>
   imported (stackImport ex_backend False ex_snapshot) = None"
proof -
  have imp: "imported (stackImport ex_backend False ex_snapshot_own) =
     Some \<lparr>Version = 1, Deployment = URN ex_res_a @ URN ex_res_c\<rparr>"
    by (simp add: stackImport_def checkResources_gather clearPendingOperations_def
        ex_snapshot_own_def ex_backend_def ex_res_a_def ex_res_c_def)
  from imp
    stackImport_pending [of False ex_backend ex_snapshot_own]
    stackImport_pending [of False ex_backend ex_snapshot]
  show ?thesis
    by (simp add: ex_mismatches ex_mismatches_own)
      (simp add: ex_snapshot_own_def pendingOps_def)
qed

end
